theory Spec2Isabelle
  imports Main "HOL-Library.AList"
begin

section \<open>Python strings and values\<close>

text \<open>
  A Python \<open>str\<close> is modelled as the \<open>string\<close> of its UTF-8 bytes; a text of ASCII
  characters is the string of these characters.

  \<open>whitespace\<close> lists the characters for which \<open>str.isspace()\<close> holds, each by its
  UTF-8 encoding: the code points 9 to 13, 28 to 32, U+0085, U+00A0, U+1680, U+2000 to
  U+200A, U+2028, U+2029, U+202F, U+205F and U+3000. \<open>str.strip()\<close> removes them from
  both ends. No encoding is a prefix of another, and in UTF-8 an encoding that ends a
  text is its last character, so that removing encodings from the ends of the bytes is
  removing the characters.

  \<open>str.lower()\<close> is modelled on the ASCII range: it maps \<open>A\<close>..\<open>Z\<close> to \<open>a\<close>..\<open>z\<close> and
  leaves every other byte alone. None of the keys the program looks lowered strings up
  under contains a letter that a character beyond ASCII lowers to.
\<close>

fun startswith :: "string \<Rightarrow> string \<Rightarrow> bool" where
  "startswith s [] = True"
| "startswith [] (p # ps) = False"
| "startswith (c # cs) (p # ps) = (c = p \<and> startswith cs ps)"

definition whitespace :: "string list" where
  "whitespace =
     [[CHR 0x09], [CHR 0x0A], [CHR 0x0B], [CHR 0x0C], [CHR 0x0D], [CHR 0x1C], [CHR 0x1D],
      [CHR 0x1E], [CHR 0x1F], [CHR 0x20], [CHR 0xC2, CHR 0x85], [CHR 0xC2, CHR 0xA0],
      [CHR 0xE1, CHR 0x9A, CHR 0x80], [CHR 0xE2, CHR 0x80, CHR 0x80],
      [CHR 0xE2, CHR 0x80, CHR 0x81], [CHR 0xE2, CHR 0x80, CHR 0x82],
      [CHR 0xE2, CHR 0x80, CHR 0x83], [CHR 0xE2, CHR 0x80, CHR 0x84],
      [CHR 0xE2, CHR 0x80, CHR 0x85], [CHR 0xE2, CHR 0x80, CHR 0x86],
      [CHR 0xE2, CHR 0x80, CHR 0x87], [CHR 0xE2, CHR 0x80, CHR 0x88],
      [CHR 0xE2, CHR 0x80, CHR 0x89], [CHR 0xE2, CHR 0x80, CHR 0x8A],
      [CHR 0xE2, CHR 0x80, CHR 0xA8], [CHR 0xE2, CHR 0x80, CHR 0xA9],
      [CHR 0xE2, CHR 0x80, CHR 0xAF], [CHR 0xE2, CHR 0x81, CHR 0x9F],
      [CHR 0xE3, CHR 0x80, CHR 0x80]]"

text \<open>Dropping the patterns \<open>pats\<close> from the front of a string, as long as one matches.\<close>

fun lstrip_with :: "string list \<Rightarrow> string \<Rightarrow> string" where
  "lstrip_with pats [] = []"
| "lstrip_with pats (c # s) =
     (case find (\<lambda>p. p \<noteq> [] \<and> startswith (c # s) p) pats of
        None \<Rightarrow> c # s
      | Some p \<Rightarrow> lstrip_with pats (drop (length p - 1) s))"

definition strip :: "string \<Rightarrow> string" where
  "strip s = rev (lstrip_with (map rev whitespace) (rev (lstrip_with whitespace s)))"

definition lower_char :: "char \<Rightarrow> char" where
  "lower_char c =
     (let n = (of_char c :: nat) in if 65 \<le> n \<and> n \<le> 90 then char_of (n + 32) else c)"

definition lower :: "string \<Rightarrow> string" where
  "lower s = map lower_char s"

text \<open>\<open>contains s t\<close> is Python's \<open>t in s\<close> on strings.\<close>

fun contains :: "string \<Rightarrow> string \<Rightarrow> bool" where
  "contains [] t = (t = [])"
| "contains (c # cs) t = (startswith (c # cs) t \<or> contains cs t)"

text \<open>
  The values a decoded JSON document is made of. A dict is an association list read
  with \<open>map_of\<close>. Numbers are integers: the program inspects a number only for being
  zero or not. \<open>PObj\<close> is an object of the client library, given by its attributes; it
  never comes out of a JSON document.
\<close>

datatype pyval =
    PNone
  | PBool bool
  | PNum int
  | PStr string
  | PList "pyval list"
  | PDict "(string \<times> pyval) list"
  | PObj "(string \<times> pyval) list"

text \<open>
  The exceptions that can leave a function of the application. \<open>AttributeError ty a\<close>
  is raised by looking up the attribute \<open>a\<close> on a value of type \<open>ty\<close>.
\<close>

datatype exn =
    AttributeError string string
  | RuntimeError string

fun exn_str :: "exn \<Rightarrow> string" where
  "exn_str (AttributeError ty a) =
     [CHR 0x27] @ ty @ [CHR 0x27] @ '' object has no attribute '' @ [CHR 0x27] @ a @ [CHR 0x27]"
| "exn_str (RuntimeError msg) = msg"

fun exn_type_name :: "exn \<Rightarrow> string" where
  "exn_type_name (AttributeError ty a) = ''AttributeError''"
| "exn_type_name (RuntimeError msg) = ''RuntimeError''"

fun type_name :: "pyval \<Rightarrow> string" where
  "type_name PNone = ''NoneType''"
| "type_name (PBool b) = ''bool''"
| "type_name (PNum n) = ''int''"
| "type_name (PStr s) = ''str''"
| "type_name (PList xs) = ''list''"
| "type_name (PDict kvs) = ''dict''"
| "type_name (PObj attrs) = ''object''"

fun truthy :: "pyval \<Rightarrow> bool" where
  "truthy PNone = False"
| "truthy (PBool b) = b"
| "truthy (PNum n) = (n \<noteq> 0)"
| "truthy (PStr s) = (s \<noteq> [])"
| "truthy (PList xs) = (xs \<noteq> [])"
| "truthy (PDict kvs) = (kvs \<noteq> [])"
| "truthy (PObj attrs) = True"

text \<open>
  Sequencing of statements that may raise: the first exception ends the function.
\<close>

fun try_bind :: "exn + 'a \<Rightarrow> ('a \<Rightarrow> exn + 'b) \<Rightarrow> exn + 'b" where
  "try_bind (Inl e) f = Inl e"
| "try_bind (Inr x) f = f x"

text \<open>\<open>a or b\<close>.\<close>

definition py_or :: "pyval \<Rightarrow> pyval \<Rightarrow> pyval" where
  "py_or a b = (if truthy a then a else b)"

text \<open>\<open>d.get(k)\<close>: only a dict has the method.\<close>

fun dict_get :: "pyval \<Rightarrow> string \<Rightarrow> exn + pyval" where
  "dict_get (PDict kvs) k = Inr (case map_of kvs k of None \<Rightarrow> PNone | Some v \<Rightarrow> v)"
| "dict_get v k = Inl (AttributeError (type_name v) ''get'')"

text \<open>\<open>v.lower()\<close> and \<open>v.strip()\<close>: only a str has the methods.\<close>

fun py_lower :: "pyval \<Rightarrow> exn + string" where
  "py_lower (PStr s) = Inr (lower s)"
| "py_lower v = Inl (AttributeError (type_name v) ''lower'')"

fun py_strip :: "pyval \<Rightarrow> exn + string" where
  "py_strip (PStr s) = Inr (strip s)"
| "py_strip v = Inl (AttributeError (type_name v) ''strip'')"

text \<open>
  A value inside an f-string. A str is inserted as it is; the text of any other value
  is what Python's built-in \<open>format\<close> gives, taken as the parameter \<open>render\<close>.
\<close>

fun fstring :: "(pyval \<Rightarrow> string) \<Rightarrow> pyval \<Rightarrow> string" where
  "fstring render (PStr s) = s"
| "fstring render v = render v"

section \<open>The prompt builder\<close>

definition style_map :: "(string \<times> string) list" where
  "style_map =
     [(''short'', ''2-3 concise sentences''),
      (''medium'', ''a tight single paragraph''),
      (''detailed'', ''a detailed yet concise multi-paragraph summary'')]"

definition tone_map :: "(string \<times> string) list" where
  "tone_map =
     [(''neutral'', ''neutral, factual prose''),
      (''bullet'', ''concise bullet points''),
      (''technical'', ''precise technical language'')]"

text \<open>\<open>m.get(k, m[d])\<close> for a key \<open>d\<close> of the table \<open>m\<close>.\<close>

definition map_get_default :: "(string \<times> string) list \<Rightarrow> string \<Rightarrow> string \<Rightarrow> string" where
  "map_get_default m k d =
     (case map_of m k of Some v \<Rightarrow> v | None \<Rightarrow> (case map_of m d of Some v \<Rightarrow> v | None \<Rightarrow> []))"

definition build_summary_prompt ::
  "(pyval \<Rightarrow> string) \<Rightarrow> string \<Rightarrow> pyval \<Rightarrow> exn + string" where
  "build_summary_prompt render text options =
     try_bind (dict_get options ''length'') (\<lambda>length_raw.
     try_bind (py_lower (py_or length_raw (PStr ''medium''))) (\<lambda>length_opt.
     try_bind (dict_get options ''tone'') (\<lambda>tone_raw.
     try_bind (py_lower (py_or tone_raw (PStr ''neutral''))) (\<lambda>tone.
     try_bind (dict_get options ''language'') (\<lambda>language_raw.
       let language = py_or language_raw (PStr [] );
           style = map_get_default style_map length_opt ''medium'';
           tone_desc = map_get_default tone_map tone ''neutral'';
           lang_part = (if truthy language then '' in '' @ fstring render language else [])
       in Inr (''You are a careful assistant that preserves facts, figures, and names. ''
               @ ''Summarize the following text as '' @ style @ '' using '' @ tone_desc
               @ lang_part @ ''. ''
               @ ''Highlight critical numbers. If there is uncertainty, mention it briefly.''
               @ [CHR 0x0A, CHR 0x0A] @ strip text))))))"

text \<open>
  The string that \<open>build_summary_prompt\<close> returns, as a function of the parts that vary:
  the style, the tone, the language part and the trimmed content.
\<close>

definition prompt_text :: "string \<Rightarrow> string \<Rightarrow> string \<Rightarrow> string \<Rightarrow> string" where
  "prompt_text style tone_desc lang_part body =
     ''You are a careful assistant that preserves facts, figures, and names. ''
     @ ''Summarize the following text as '' @ style @ '' using '' @ tone_desc
     @ lang_part @ ''. ''
     @ ''Highlight critical numbers. If there is uncertainty, mention it briefly.''
     @ [CHR 0x0A, CHR 0x0A] @ body"

text \<open>
  An option value that the tables do not recognise: a str whose lowered form is no key
  of the table, or a value that is no str and counts as false (\<open>None\<close>, which is also what
  an absent key gives, \<open>False\<close>, \<open>0\<close>, an empty list or dict).
\<close>

definition unrecognized :: "(string \<times> string) list \<Rightarrow> pyval \<Rightarrow> bool" where
  "unrecognized table v =
     (case v of PStr s \<Rightarrow> map_of table (lower s) = None | _ \<Rightarrow> \<not> truthy v)"


section \<open>Configuration\<close>

definition FALLBACK_MODEL :: string where
  "FALLBACK_MODEL = ''gemini-1.5-flash''"

text \<open>
  The module-level state: it is computed once when the module is loaded and never
  assigned again. \<open>genai_model\<close> is the library handle, given by the name of the model it
  was built for, or \<open>None\<close>.
\<close>

record config =
  API_KEY :: string
  DEFAULT_MODEL :: string
  genai_model :: "string option"

text \<open>
  What the client library does at start-up: whether its import succeeded, whether
  \<open>configure\<close> returns, and for which model names the constructor returns.
\<close>

record genai_library =
  imported :: bool
  configure_ok :: "string \<Rightarrow> bool"
  model_ok :: "string \<Rightarrow> bool"

text \<open>\<open>os.getenv(a) or os.getenv(b) or ""\<close>.\<close>

definition getenv_or :: "(string \<times> string) list \<Rightarrow> string \<Rightarrow> string \<Rightarrow> string" where
  "getenv_or environ a b =
     (case map_of environ a of
        Some v \<Rightarrow> if v \<noteq> [] then v else (case map_of environ b of Some u \<Rightarrow> u | None \<Rightarrow> [])
      | None \<Rightarrow> (case map_of environ b of Some u \<Rightarrow> u | None \<Rightarrow> []))"

definition load_module :: "(string \<times> string) list \<Rightarrow> genai_library \<Rightarrow> config" where
  "load_module environ genai =
     (let api_key = getenv_or environ ''GEMINI_API_KEY'' ''GOOGLE_API_KEY'';
          default_model = (case map_of environ ''MODEL'' of Some m \<Rightarrow> m | None \<Rightarrow> ''gemini-2.0-flash'')
      in \<lparr>API_KEY = api_key,
          DEFAULT_MODEL = default_model,
          genai_model =
            (if imported genai \<and> api_key \<noteq> [] then
               (if configure_ok genai api_key \<and> model_ok genai default_model
                then Some default_model
                else if model_ok genai FALLBACK_MODEL then Some FALLBACK_MODEL else None)
             else None)\<rparr>)"

section \<open>The outside world\<close>

text \<open>The part \<open>{"inline_data": {"data": ..., "mime_type": ...}}\<close> of an image request.\<close>

record image_part =
  inline_data :: string
  mime_type :: string

text \<open>
  The calls that leave the process, in the order they are made: a
  \<open>generate_content\<close> call on the library handle (the handle's model, the prompt, the
  image part if any) and an HTTP POST (URL, the API key header, the prompt in the body).
\<close>

datatype call =
    GenerateContent string string "image_part option"
  | Post string string string

record http_response =
  status_code :: int
  json :: "pyval option"

text \<open>
  The behaviour of everything outside the application. A call is answered depending on
  the calls made before it. \<open>None\<close> always stands for an exception: of
  \<open>generate_content\<close> or of reading its response, of \<open>requests.post\<close>, of \<open>r.json()\<close>, of
  \<open>json.loads\<close>, of \<open>Image.open\<close>. \<open>py_format\<close> is Python's built-in \<open>format\<close> on values
  that are no str.
\<close>

record world =
  generate_content :: "call list \<Rightarrow> string \<Rightarrow> string \<Rightarrow> image_part option \<Rightarrow> pyval option"
  requests_post :: "call list \<Rightarrow> string \<Rightarrow> string \<Rightarrow> string \<Rightarrow> http_response option"
  json_loads :: "string \<Rightarrow> pyval option"
  b64encode :: "string \<Rightarrow> string"
  image_open :: "string \<Rightarrow> (int \<times> int) option"
  py_format :: "pyval \<Rightarrow> string"

section \<open>Attribute and item access\<close>

text \<open>\<open>getattr(v, a, None)\<close>, with \<open>None\<close> of HOL for a missing attribute.\<close>

fun getattr :: "pyval \<Rightarrow> string \<Rightarrow> pyval option" where
  "getattr (PObj attrs) a = map_of attrs a"
| "getattr v a = None"

text \<open>
  \<open>v[k]\<close> for a str \<open>k\<close> and \<open>v[0]\<close>. \<open>None\<close> is the exception (KeyError, IndexError,
  TypeError) that the handler around every use catches. A str gives its first
  character as a str, on which the next access fails.
\<close>

fun getitem :: "pyval \<Rightarrow> string \<Rightarrow> pyval option" where
  "getitem (PDict kvs) k = map_of kvs k"
| "getitem v k = None"

fun getitem0 :: "pyval \<Rightarrow> pyval option" where
  "getitem0 (PList []) = None"
| "getitem0 (PList (x # xs)) = Some x"
| "getitem0 (PStr []) = None"
| "getitem0 (PStr (c # cs)) = Some (PStr [c])"
| "getitem0 v = None"

text \<open>\<open>v.strip()\<close> inside a handler.\<close>

fun strip_opt :: "pyval \<Rightarrow> string option" where
  "strip_opt (PStr s) = Some (strip s)"
| "strip_opt v = None"

text \<open>The truth value of an \<open>Optional[str]\<close>.\<close>

fun opt_truthy :: "string option \<Rightarrow> bool" where
  "opt_truthy None = False"
| "opt_truthy (Some s) = (s \<noteq> [])"

section \<open>The provider clients\<close>

text \<open>\<open>hasattr(resp, "text") and resp.text\<close>.\<close>

definition has_text :: "pyval \<Rightarrow> bool" where
  "has_text resp = (case getattr resp ''text'' of None \<Rightarrow> False | Some t \<Rightarrow> truthy t)"

text \<open>The body of the \<open>try\<close> of \<open>_genai_summarize\<close> after the call has returned \<open>resp\<close>.\<close>

definition genai_extract :: "pyval \<Rightarrow> string option" where
  "genai_extract resp =
     (if has_text resp then Option.bind (getattr resp ''text'') strip_opt
      else case getattr resp ''candidates'' of
        None \<Rightarrow> None
      | Some candidates \<Rightarrow>
          if truthy candidates then
            Option.bind (getitem0 candidates) (\<lambda>cand.
            Option.bind
              (case getattr cand ''content'' of
                 None \<Rightarrow> Some (PList [])
               | Some content \<Rightarrow>
                   if truthy content then getattr content ''parts'' else Some (PList []))
              (\<lambda>parts.
                 if truthy parts then
                   Option.bind (getitem0 parts) (\<lambda>part0.
                     case getattr part0 ''text'' of
                       None \<Rightarrow> None
                     | Some t \<Rightarrow> strip_opt t)
                 else None))
          else None)"

definition genai_summarize ::
  "world \<Rightarrow> config \<Rightarrow> string \<Rightarrow> call list \<Rightarrow> string option \<times> call list" where
  "genai_summarize w cfg prompt tr =
     (case genai_model cfg of
        None \<Rightarrow> (None, tr)
      | Some m \<Rightarrow>
          (case generate_content w tr m prompt None of
             None \<Rightarrow> (None, tr @ [GenerateContent m prompt None])
           | Some resp \<Rightarrow> (genai_extract resp, tr @ [GenerateContent m prompt None])))"

definition generate_url :: "string \<Rightarrow> string" where
  "generate_url model_name =
     ''https://generativelanguage.googleapis.com/v1beta/models/'' @ model_name
       @ '':generateContent''"

text \<open>\<open>data['candidates'][0]['content']['parts'][0]['text'].strip()\<close>.\<close>

definition http_extract :: "pyval \<Rightarrow> string option" where
  "http_extract data =
     Option.bind (getitem data ''candidates'') (\<lambda>candidates.
     Option.bind (getitem0 candidates) (\<lambda>cand.
     Option.bind (getitem cand ''content'') (\<lambda>content.
     Option.bind (getitem content ''parts'') (\<lambda>parts.
     Option.bind (getitem0 parts) (\<lambda>part0.
     Option.bind (getitem part0 ''text'') strip_opt)))))"

definition http_generate ::
  "world \<Rightarrow> config \<Rightarrow> string \<Rightarrow> string \<Rightarrow> call list \<Rightarrow> string option \<times> call list" where
  "http_generate w cfg prompt model_name tr =
     (if API_KEY cfg = [] then (None, tr)
      else
        let url = generate_url model_name in
        (case requests_post w tr url (API_KEY cfg) prompt of
           None \<Rightarrow> (None, tr @ [Post url (API_KEY cfg) prompt])
         | Some r \<Rightarrow>
             (if status_code r = 200
              then Option.bind (json r) http_extract
              else None,
              tr @ [Post url (API_KEY cfg) prompt])))"

section \<open>The orchestrator\<close>

record summary_result =
  summary :: string
  meta_model :: string
  meta_mode :: string
  meta_source :: string
  meta_options :: pyval

definition summarize ::
  "world \<Rightarrow> config \<Rightarrow> string \<Rightarrow> pyval \<Rightarrow> call list \<Rightarrow> (exn + summary_result) \<times> call list" where
  "summarize w cfg text options tr =
     (case build_summary_prompt (py_format w) text options of
        Inl e \<Rightarrow> (Inl e, tr)
      | Inr prompt \<Rightarrow>
          let (summary0, tr0) = genai_summarize w cfg prompt tr;
              used_model0 = DEFAULT_MODEL cfg;
              source0 = ''genai'';
              (summary1, source1, tr1) =
                (if \<not> opt_truthy summary0
                 then (let (s, t) = http_generate w cfg prompt (DEFAULT_MODEL cfg) tr0
                       in (s, ''http'', t))
                 else (summary0, source0, tr0));
              (summary2, used_model2, source2, tr2) =
                (if \<not> opt_truthy summary1
                 then (let (s, t) = http_generate w cfg prompt FALLBACK_MODEL tr1
                       in if opt_truthy s then (s, FALLBACK_MODEL, ''http-fallback'', t)
                          else (s, used_model0, source1, t))
                 else (summary1, used_model0, source1, tr1))
          in (case summary2 of
                None \<Rightarrow> (Inl (RuntimeError ''All summarization methods failed''), tr2)
              | Some s \<Rightarrow>
                  if s = [] then (Inl (RuntimeError ''All summarization methods failed''), tr2)
                  else (Inr \<lparr>summary = s, meta_model = used_model2, meta_mode = ''summarize'',
                             meta_source = source2, meta_options = options\<rparr>, tr2)))"

section \<open>Image requests\<close>

record file_storage =
  file_data :: string
  mimetype :: string

definition encode_image :: "world \<Rightarrow> file_storage \<Rightarrow> image_part \<times> string" where
  "encode_image w file =
     (let data = file_data file;
          b64 = b64encode w data;
          mime = (if mimetype file \<noteq> [] then mimetype file else ''image/png'')
      in (\<lparr>inline_data = b64, mime_type = mime\<rparr>, data))"

definition image_context ::
  "world \<Rightarrow> config \<Rightarrow> string \<Rightarrow> image_part \<Rightarrow> call list \<Rightarrow> string option \<times> call list" where
  "image_context w cfg prompt part tr =
     (case genai_model cfg of
        None \<Rightarrow> (None, tr)
      | Some m \<Rightarrow>
          (case generate_content w tr m prompt (Some part) of
             None \<Rightarrow> (None, tr @ [GenerateContent m prompt (Some part)])
           | Some resp \<Rightarrow>
               (if has_text resp then Option.bind (getattr resp ''text'') strip_opt else None,
                tr @ [GenerateContent m prompt (Some part)])))"

text \<open>The prompt that \<open>analyze\<close> builds for an image, from the language option.\<close>

definition base_prompt :: "(pyval \<Rightarrow> string) \<Rightarrow> pyval \<Rightarrow> string" where
  "base_prompt render language =
     ''You are an assistant describing the provided image. ''
     @ ''Identify notable objects, text, and context succinctly.''
     @ (if truthy language then '' Respond in '' @ fstring render language @ ''.'' else [])"

definition unavailable_text :: string where
  "unavailable_text = ''(Vision model unavailable or failed. No analysis produced.)''"

section \<open>The route\<close>

text \<open>
  The request as the route reads it: the content type header, the result of
  \<open>get_json(silent=True)\<close> (\<open>PNone\<close> when the body is no JSON), the form fields and the
  uploaded files.
\<close>

record request =
  content_type :: "string option"
  get_json :: pyval
  form :: "(string \<times> string) list"
  files :: "(string \<times> file_storage) list"

record analysis_result =
  analysis :: string
  image_model :: string
  image_mode :: string
  image_size :: string
  image_options :: pyval

datatype body =
    ErrorBody string
  | ExceptionBody string string
  | SummaryBody summary_result
  | AnalysisBody analysis_result

definition is_json_request :: "request \<Rightarrow> bool" where
  "is_json_request req =
     (case content_type req of None \<Rightarrow> False | Some ct \<Rightarrow> startswith ct ''application/json'')"

text \<open>The options of an image request: the form field, decoded, or \<open>{}\<close>.\<close>

definition form_options :: "world \<Rightarrow> request \<Rightarrow> pyval" where
  "form_options w req =
     (let options_raw =
            (case map_of (form req) ''options'' of
               None \<Rightarrow> ''{}''
             | Some s \<Rightarrow> if s \<noteq> [] then s else ''{}'')
      in case json_loads w options_raw of None \<Rightarrow> PDict [] | Some v \<Rightarrow> v)"

definition size_str :: "world \<Rightarrow> string \<Rightarrow> string" where
  "size_str w raw_bytes =
     (case image_open w raw_bytes of
        None \<Rightarrow> ''unknown''
      | Some (width, height) \<Rightarrow>
          fstring (py_format w) (PNum width) @ ''x'' @ fstring (py_format w) (PNum height))"

text \<open>
  The route \<open>analyze\<close>. Its result is the response (body and status), or the exception
  that leaves the route (which the framework turns into a status 500), and the calls
  made. The two branches of the source function are given as \<open>analyze_json\<close> (the JSON
  summarization request) and \<open>analyze_image\<close> (the form request in the mode
  \<open>image_context\<close>, from the test for the image file on); \<open>analyze\<close> chooses between
  them as the source does.
\<close>

definition analyze_json ::
  "world \<Rightarrow> config \<Rightarrow> request \<Rightarrow> call list \<Rightarrow> (exn + body \<times> int) \<times> call list" where
  "analyze_json w cfg req tr =
     (let data = py_or (get_json req) (PDict []) in
      case dict_get data ''mode'' of
        Inl e \<Rightarrow> (Inl e, tr)
      | Inr mode_raw \<Rightarrow>
          if py_or mode_raw (PStr ''summarize'') \<noteq> PStr ''summarize''
          then (Inr (ErrorBody ''Unsupported JSON mode'', 400), tr)
          else
            (case try_bind (dict_get data ''text'') (\<lambda>text_raw. py_strip (py_or text_raw (PStr []))) of
               Inl e \<Rightarrow> (Inl e, tr)
             | Inr text \<Rightarrow>
                 (case dict_get data ''options'' of
                    Inl e \<Rightarrow> (Inl e, tr)
                  | Inr options_raw \<Rightarrow>
                      if text = [] then (Inr (ErrorBody ''No text provided'', 400), tr)
                      else
                        (case summarize w cfg text (py_or options_raw (PDict [])) tr of
                           (Inr result, tr') \<Rightarrow> (Inr (SummaryBody result, 200), tr')
                         | (Inl e, tr') \<Rightarrow>
                             (Inr (ExceptionBody (exn_str e) (exn_type_name e), 502), tr')))))"

definition analyze_image ::
  "world \<Rightarrow> config \<Rightarrow> request \<Rightarrow> call list \<Rightarrow> (exn + body \<times> int) \<times> call list" where
  "analyze_image w cfg req tr =
     (case map_of (files req) ''image'' of
        None \<Rightarrow> (Inr (ErrorBody ''Image file missing'', 400), tr)
      | Some image_file \<Rightarrow>
          let options = form_options w req in
          (case dict_get options ''language'' of
             Inl e \<Rightarrow> (Inl e, tr)
           | Inr language_raw \<Rightarrow>
               let language = py_or language_raw (PStr []);
                   (part, raw_bytes) = encode_image w image_file;
                   (analysis0, tr') =
                      image_context w cfg (base_prompt (py_format w) language) part tr
               in (Inr (AnalysisBody
                         \<lparr>analysis =
                            (case analysis0 of
                               None \<Rightarrow> unavailable_text
                             | Some a \<Rightarrow> if a = [] then unavailable_text else a),
                          image_model = DEFAULT_MODEL cfg,
                          image_mode = ''image_context'',
                          image_size = size_str w raw_bytes,
                          image_options = options\<rparr>, 200),
                   tr')))"

definition analyze ::
  "world \<Rightarrow> config \<Rightarrow> request \<Rightarrow> call list \<Rightarrow> (exn + body \<times> int) \<times> call list" where
  "analyze w cfg req tr =
     (if is_json_request req then analyze_json w cfg req tr
      else if (case map_of (form req) ''mode'' of None \<Rightarrow> [] | Some m \<Rightarrow> m) = ''image_context''
      then analyze_image w cfg req tr
      else (Inr (ErrorBody ''Unsupported request format or mode'', 400), tr))"

section \<open>The specification's reading of the orchestrator and of the response\<close>

text \<open>
  The specification describes the orchestrator as a walk over a fixed sequence of
  attempts that ends at the first one giving a non-empty text. \<open>first_success\<close> is that
  description: each attempt receives the calls made so far and returns its text, if
  any, and the calls made afterwards; the attempts behind the first success are never
  run.
\<close>

fun first_success ::
  "(call list \<Rightarrow> string option \<times> call list) list \<Rightarrow> call list \<Rightarrow> string option \<times> call list" where
  "first_success [] tr = (None, tr)"
| "first_success (attempt # rest) tr =
     (case attempt tr of (r, tr') \<Rightarrow> if opt_truthy r then (r, tr') else first_success rest tr')"

fun result_text :: "exn + summary_result \<Rightarrow> string option" where
  "result_text (Inl e) = None"
| "result_text (Inr r) = Some (summary r)"

text \<open>
  The same walk, with each attempt carrying the provider tag and the model name of its
  tier; the winning attempt's tag and model are returned with its text.
\<close>

fun first_success_tagged ::
  "((string \<times> string) \<times> (call list \<Rightarrow> string option \<times> call list)) list \<Rightarrow> call list \<Rightarrow>
     ((string \<times> string) \<times> string) option \<times> call list" where
  "first_success_tagged [] tr = (None, tr)"
| "first_success_tagged ((tag, attempt) # rest) tr =
     (case attempt tr of
        (None, tr') \<Rightarrow> first_success_tagged rest tr'
      | (Some s, tr') \<Rightarrow> if s \<noteq> [] then (Some (tag, s), tr') else first_success_tagged rest tr')"

fun result_provenance :: "exn + summary_result \<Rightarrow> ((string \<times> string) \<times> string) option" where
  "result_provenance (Inl e) = None"
| "result_provenance (Inr r) = Some ((meta_source r, meta_model r), summary r)"

text \<open>
  The expected shape of a successful response of the service, as the specification
  gives it: \<open>{"candidates": [{"content": {"parts": [{"text": t}]}}]}\<close>, read for the first
  candidate's first text part.
\<close>

fun first_text_part :: "pyval \<Rightarrow> string option" where
  "first_text_part (PDict root) =
     (case map_of root ''candidates'' of
        Some (PList (PDict cand # cands)) \<Rightarrow>
          (case map_of cand ''content'' of
             Some (PDict content) \<Rightarrow>
               (case map_of content ''parts'' of
                  Some (PList (PDict part # parts)) \<Rightarrow>
                    (case map_of part ''text'' of Some (PStr t) \<Rightarrow> Some t | _ \<Rightarrow> None)
                | _ \<Rightarrow> None)
           | _ \<Rightarrow> None)
      | _ \<Rightarrow> None)"
| "first_text_part v = None"

section \<open>Example environments\<close>

definition text_response :: "string \<Rightarrow> pyval" where
  "text_response t =
     PDict [(''candidates'',
       PList [PDict [(''content'', PDict [(''parts'', PList [PDict [(''text'', PStr t)]])])]])]"

text \<open>A world in which the library and the service answer every call.\<close>

definition answering_world :: world where
  "answering_world =
     \<lparr>generate_content = (\<lambda>tr m prompt part. Some (PObj [(''text'', PStr ''library answer'')])),
      requests_post = (\<lambda>tr url key prompt.
         Some \<lparr>status_code = 200, json = Some (text_response '' network answer '')\<rparr>),
      json_loads = (\<lambda>s. if s = ''{}'' then Some (PDict []) else None),
      b64encode = (\<lambda>s. s),
      image_open = (\<lambda>s. None),
      py_format = (\<lambda>v. ''?'')\<rparr>"

text \<open>A world in which every call to the library and to the service raises.\<close>

definition silent_world :: world where
  "silent_world =
     \<lparr>generate_content = (\<lambda>tr m prompt part. None),
      requests_post = (\<lambda>tr url key prompt. None),
      json_loads = (\<lambda>s. if s = ''{}'' then Some (PDict []) else None),
      b64encode = (\<lambda>s. s),
      image_open = (\<lambda>s. None),
      py_format = (\<lambda>v. ''?'')\<rparr>"

text \<open>
  A world without the library in which the service answers for the secondary model
  only.
\<close>

definition fallback_only_world :: world where
  "fallback_only_world =
     \<lparr>generate_content = (\<lambda>tr m prompt part. None),
      requests_post = (\<lambda>tr url key prompt.
         if url = generate_url FALLBACK_MODEL
         then Some \<lparr>status_code = 200, json = Some (text_response ''X'')\<rparr>
         else Some \<lparr>status_code = 404, json = None\<rparr>),
      json_loads = (\<lambda>s. if s = ''{}'' then Some (PDict []) else None),
      b64encode = (\<lambda>s. s),
      image_open = (\<lambda>s. None),
      py_format = (\<lambda>v. ''?'')\<rparr>"

definition example_config :: config where
  "example_config =
     \<lparr>API_KEY = ''k'', DEFAULT_MODEL = ''gemini-2.0-flash'', genai_model = None\<rparr>"

text \<open>The prompt built for the content \<open>Some text\<close> and no options.\<close>

definition example_prompt :: string where
  "example_prompt =
     ''You are a careful assistant that preserves facts, figures, and names. ''
     @ ''Summarize the following text as a tight single paragraph using neutral, factual prose. ''
     @ ''Highlight critical numbers. If there is uncertainty, mention it briefly.''
     @ [CHR 0x0A, CHR 0x0A] @ ''Some text''"

text \<open>The prompts built for the content \<open>Some text\<close> with the short style.\<close>

definition short_prompt :: string where
  "short_prompt =
     prompt_text ''2-3 concise sentences'' ''neutral, factual prose'' [] ''Some text''"

definition short_bullet_prompt :: string where
  "short_bullet_prompt =
     prompt_text ''2-3 concise sentences'' ''concise bullet points'' [] ''Some text''"

text \<open>
  A configuration with the library handle, and requests: an image request with the given
  bytes, a JSON request whose text is blank, an image request without a file.
\<close>

definition library_config :: config where
  "library_config =
     \<lparr>API_KEY = ''k'', DEFAULT_MODEL = ''gemini-2.0-flash'',
      genai_model = Some ''gemini-2.0-flash''\<rparr>"

definition image_request :: "string \<Rightarrow> request" where
  "image_request bytes =
     \<lparr>content_type = Some ''multipart/form-data; boundary=x'',
      get_json = PNone,
      form = [(''mode'', ''image_context'')],
      files = [(''image'', \<lparr>file_data = bytes, mimetype = ''image/png''\<rparr>)]\<rparr>"

definition blank_text_request :: request where
  "blank_text_request =
     \<lparr>content_type = Some ''application/json'',
      get_json = PDict [(''text'', PStr ''   '')],
      form = [],
      files = []\<rparr>"

definition no_image_request :: request where
  "no_image_request =
     \<lparr>content_type = Some ''multipart/form-data; boundary=x'',
      get_json = PNone,
      form = [(''mode'', ''image_context'')],
      files = []\<rparr>"

text \<open>The prompt of an image request without a language.\<close>

definition image_prompt :: string where
  "image_prompt =
     ''You are an assistant describing the provided image. ''
     @ ''Identify notable objects, text, and context succinctly.''"

text \<open>A JSON request whose text is one no-break space (U+00A0).\<close>

definition nbsp_text_request :: request where
  "nbsp_text_request =
     \<lparr>content_type = Some ''application/json'',
      get_json = PDict [(''text'', PStr [CHR 0xC2, CHR 0xA0])],
      form = [],
      files = []\<rparr>"

text \<open>
  A library whose constructor fails for every model but the secondary one, and the
  module state that start-up reaches with it and the key \<open>k\<close>.
\<close>

definition fallback_only_library :: genai_library where
  "fallback_only_library =
     \<lparr>imported = True, configure_ok = (\<lambda>key. True), model_ok = (\<lambda>m. m = FALLBACK_MODEL)\<rparr>"

definition fallback_handle_config :: config where
  "fallback_handle_config =
     \<lparr>API_KEY = ''k'', DEFAULT_MODEL = ''gemini-2.0-flash'',
      genai_model = Some ''gemini-1.5-flash''\<rparr>"

section \<open>Properties of the raw-network client\<close>

lemma strip_network_answer: "strip '' network answer '' = ''network answer''"
  by (simp add: strip_def whitespace_def)

lemma getitem_Some:
  "getitem v k = Some x \<longleftrightarrow> (\<exists>kvs. v = PDict kvs \<and> map_of kvs k = Some x)"
  by (cases v) auto

lemma getitem0_PStr:
  "getitem0 (PStr s) = Some v \<longleftrightarrow> (\<exists>c cs. s = c # cs \<and> v = PStr [c])"
  by (cases s) auto

lemma getitem0_PList: "getitem0 (PList xs) = Some v \<longleftrightarrow> (\<exists>ys. xs = v # ys)"
  by (cases xs) auto

text \<open>
  The chain of subscripts of the source succeeds exactly on the expected shape, and
  then gives the trimmed text.
\<close>

lemma http_extract_shape: "http_extract data = map_option strip (first_text_part data)"
  apply (cases data)
        apply (auto simp: http_extract_def getitem0_PStr getitem0_PList getitem_Some
      split: option.splits pyval.splits list.splits Option.bind_splits)
  done

text \<open>
  Claim C7. With an API key configured, a raw-network generate call issues one POST
  and returns the trimmed first text part of the first candidate when the response has
  status 200 and the expected shape; a network error, another status, a body that is no
  JSON or a body of another shape give absent. The function has no exceptional result.
\<close>

theorem http_generate_result:
  "API_KEY cfg \<noteq> [] \<Longrightarrow>
   http_generate w cfg prompt model_name tr =
     ((case requests_post w tr (generate_url model_name) (API_KEY cfg) prompt of
         None \<Rightarrow> None
       | Some r \<Rightarrow>
           if status_code r = 200
           then (case json r of None \<Rightarrow> None | Some data \<Rightarrow> map_option strip (first_text_part data))
           else None),
      tr @ [Post (generate_url model_name) (API_KEY cfg) prompt])"
  by (simp add: http_generate_def http_extract_shape Let_def split: option.splits)

theorem http_generate_result_witness:
  "http_generate answering_world
     \<lparr>API_KEY = ''k'', DEFAULT_MODEL = ''gemini-2.0-flash'', genai_model = None\<rparr>
     ''Summarize'' ''m'' [] =
     (Some ''network answer'',
      [Post ''https://generativelanguage.googleapis.com/v1beta/models/m:generateContent''
         ''k'' ''Summarize''])"
  using http_generate_result
    [of "\<lparr>API_KEY = ''k'', DEFAULT_MODEL = ''gemini-2.0-flash'', genai_model = None\<rparr>"
        answering_world "''Summarize''" "''m''" "[]"]
  by (simp add: answering_world_def text_response_def generate_url_def strip_network_answer)

text \<open>
  Claim C10. With an empty API key, a raw-network generate call returns absent for
  every prompt and model name and issues no request: the calls made are unchanged. The
  configuration is never assigned after the module is loaded.
\<close>

theorem http_generate_no_key:
  "API_KEY cfg = [] \<Longrightarrow> http_generate w cfg prompt model_name tr = (None, tr)"
  by (simp add: http_generate_def)

theorem http_generate_no_key_witness:
  "http_generate answering_world
     \<lparr>API_KEY = [], DEFAULT_MODEL = ''gemini-2.0-flash'', genai_model = None\<rparr>
     ''Summarize'' ''gemini-2.0-flash'' [] = (None, [])"
  using http_generate_no_key
    [of "\<lparr>API_KEY = [], DEFAULT_MODEL = ''gemini-2.0-flash'', genai_model = None\<rparr>"
        answering_world "''Summarize''" "''gemini-2.0-flash''" "[]"]
  by simp

section \<open>Properties of the orchestrator\<close>

text \<open>
  Claim C1. Once the prompt is built, \<open>summarize\<close> is the walk over the managed-library
  attempt, the raw-network attempt with the primary model and the raw-network attempt
  with the secondary model, in this order: it returns the text of the first attempt that
  gives a non-empty string, and the calls it has made are those of the attempts up to
  that one.
\<close>

theorem summarize_first_success:
  "build_summary_prompt (py_format w) text options = Inr prompt \<Longrightarrow>
   apfst result_text (summarize w cfg text options tr) =
     first_success [genai_summarize w cfg prompt,
                    http_generate w cfg prompt (DEFAULT_MODEL cfg),
                    http_generate w cfg prompt FALLBACK_MODEL] tr"
  apply (simp add: summarize_def)
  apply (cases "genai_summarize w cfg prompt tr")
  apply (auto simp: Let_def split: prod.splits option.splits)
  done

lemma lower_medium: "lower ''medium'' = ''medium''"
  by (simp add: lower_def lower_char_def)

lemma lower_neutral: "lower ''neutral'' = ''neutral''"
  by (simp add: lower_def lower_char_def)

lemma strip_some_text: "strip ''Some text'' = ''Some text''"
  by (simp add: strip_def whitespace_def)

lemma strip_X: "strip ''X'' = ''X''"
  by (simp add: strip_def whitespace_def)

lemma example_prompt_built:
  "build_summary_prompt render ''Some text'' (PDict []) = Inr example_prompt"
  by (simp add: build_summary_prompt_def py_or_def lower_medium lower_neutral strip_some_text
      map_get_default_def style_map_def tone_map_def example_prompt_def)

lemma example_config_fields:
  "API_KEY example_config = ''k''"
  "DEFAULT_MODEL example_config = ''gemini-2.0-flash''"
  "genai_model example_config = None"
  by (simp_all add: example_config_def)

lemma genai_summarize_unavailable:
  "genai_model cfg = None \<Longrightarrow> genai_summarize w cfg p tr = (None, tr)"
  by (simp add: genai_summarize_def)

lemma genai_example_config: "genai_summarize w example_config p tr = (None, tr)"
  by (simp add: genai_summarize_unavailable example_config_fields)

lemma url_primary_neq_fallback:
  "generate_url ''gemini-2.0-flash'' \<noteq> generate_url FALLBACK_MODEL"
  by (simp add: generate_url_def FALLBACK_MODEL_def)

lemma http_primary_fallback_only:
  "http_generate fallback_only_world example_config p ''gemini-2.0-flash'' tr =
     (None, tr @ [Post (generate_url ''gemini-2.0-flash'') ''k'' p])"
  by (simp add: http_generate_def example_config_def fallback_only_world_def
      url_primary_neq_fallback)

lemma http_secondary_fallback_only:
  "http_generate fallback_only_world example_config p FALLBACK_MODEL tr =
     (Some ''X'', tr @ [Post (generate_url FALLBACK_MODEL) ''k'' p])"
  by (simp add: http_generate_def example_config_def fallback_only_world_def
      http_extract_shape text_response_def strip_X)

lemma http_silent:
  "http_generate silent_world example_config p m tr =
     (None, tr @ [Post (generate_url m) ''k'' p])"
  by (simp add: http_generate_def example_config_def silent_world_def)

theorem summarize_first_success_witness:
  "apfst result_text (summarize fallback_only_world example_config ''Some text'' (PDict []) []) =
     (Some ''X'',
      [Post (generate_url ''gemini-2.0-flash'') ''k'' example_prompt,
       Post (generate_url FALLBACK_MODEL) ''k'' example_prompt])"
  using summarize_first_success
    [of fallback_only_world "''Some text''" "PDict []" example_prompt example_config "[]"]
  by (simp add: example_prompt_built genai_example_config example_config_fields
      http_primary_fallback_only http_secondary_fallback_only)

text \<open>
  The labels that \<open>summarize\<close> writes into a result are those configured for the tier
  whose attempt gave the text: \<open>genai\<close> and \<open>DEFAULT_MODEL\<close> for the managed-library
  attempt, \<open>http\<close> and \<open>DEFAULT_MODEL\<close> for the first raw-network attempt, \<open>http-fallback\<close>
  and \<open>FALLBACK_MODEL\<close> for the second. For the two raw-network attempts the label is
  the model the request went to. In the example the library is unavailable, the primary
  raw-network call returns absent and the secondary one answers \<open>X\<close>: the result carries
  \<open>X\<close>, the secondary model and the tag \<open>http-fallback\<close>.
\<close>

lemma summarize_provenance:
  "build_summary_prompt (py_format w) text options = Inr prompt \<Longrightarrow>
   apfst result_provenance (summarize w cfg text options tr) =
     first_success_tagged
       [((''genai'', DEFAULT_MODEL cfg), genai_summarize w cfg prompt),
        ((''http'', DEFAULT_MODEL cfg), http_generate w cfg prompt (DEFAULT_MODEL cfg)),
        ((''http-fallback'', FALLBACK_MODEL), http_generate w cfg prompt FALLBACK_MODEL)] tr"
  apply (simp add: summarize_def)
  apply (cases "genai_summarize w cfg prompt tr")
  apply (auto simp: Let_def split: prod.splits option.splits)
  done

lemma summarize_provenance_example:
  "genai_model example_config = None \<and>
   http_generate fallback_only_world example_config example_prompt (DEFAULT_MODEL example_config) []
     = (None, [Post (generate_url ''gemini-2.0-flash'') ''k'' example_prompt]) \<and>
   apfst result_provenance
     (summarize fallback_only_world example_config ''Some text'' (PDict []) []) =
     (Some ((''http-fallback'', FALLBACK_MODEL), ''X''),
      [Post (generate_url ''gemini-2.0-flash'') ''k'' example_prompt,
       Post (generate_url FALLBACK_MODEL) ''k'' example_prompt])"
  using summarize_provenance
    [of fallback_only_world "''Some text''" "PDict []" example_prompt example_config "[]"]
  by (simp add: example_prompt_built genai_example_config example_config_fields
      http_primary_fallback_only http_secondary_fallback_only)

text \<open>
  Claim C2, as stated, fails: when the three attempts return absent, \<open>summarize\<close> raises,
  but the error carries a fixed message in which the secondary model is not named.
\<close>

theorem summarize_error_names_no_model:
  "summarize silent_world example_config ''Some text'' (PDict []) [] =
     (Inl (RuntimeError ''All summarization methods failed''),
      [Post (generate_url ''gemini-2.0-flash'') ''k'' example_prompt,
       Post (generate_url FALLBACK_MODEL) ''k'' example_prompt])
   \<and> \<not> contains (exn_str (RuntimeError ''All summarization methods failed'')) FALLBACK_MODEL"
  by (simp add: summarize_def example_prompt_built genai_example_config example_config_fields
      http_silent FALLBACK_MODEL_def)

text \<open>
  Claim C2, amended. When the managed-library attempt and both raw-network attempts
  return absent or an empty string, \<open>summarize\<close> produces no result record and raises a
  \<open>RuntimeError\<close> with the fixed message \<open>All summarization methods failed\<close>, whatever the
  models are.
\<close>

theorem summarize_exhausted:
  assumes "build_summary_prompt (py_format w) text options = Inr prompt"
    and "genai_summarize w cfg prompt tr = (s0, tr0)" and "\<not> opt_truthy s0"
    and "http_generate w cfg prompt (DEFAULT_MODEL cfg) tr0 = (s1, tr1)" and "\<not> opt_truthy s1"
    and "http_generate w cfg prompt FALLBACK_MODEL tr1 = (s2, tr2)" and "\<not> opt_truthy s2"
  shows "summarize w cfg text options tr =
           (Inl (RuntimeError ''All summarization methods failed''), tr2)"
  using assms by (cases s2) (simp_all add: summarize_def)

theorem summarize_exhausted_witness:
  "summarize silent_world example_config ''Some text'' (PDict []) [] =
     (Inl (RuntimeError ''All summarization methods failed''),
      [Post (generate_url ''gemini-2.0-flash'') ''k'' example_prompt,
       Post (generate_url FALLBACK_MODEL) ''k'' example_prompt])"
  using summarize_exhausted
    [of silent_world "''Some text''" "PDict []" example_prompt example_config "[]" None "[]"
        None "[Post (generate_url ''gemini-2.0-flash'') ''k'' example_prompt]" None
        "[Post (generate_url ''gemini-2.0-flash'') ''k'' example_prompt,
          Post (generate_url FALLBACK_MODEL) ''k'' example_prompt]"]
  by (simp add: example_prompt_built genai_example_config example_config_fields http_silent)

section \<open>Properties of the prompt builder\<close>

lemma lower_char_idem: "lower_char (lower_char c) = lower_char c"
  by (simp add: lower_char_def Let_def of_char_of)

lemma lower_idem: "lower (lower s) = lower s"
  by (simp add: lower_def lower_char_idem)

lemma lower_Nil_iff: "lower s = [] \<longleftrightarrow> s = []"
  by (simp add: lower_def)

lemma dict_get_update_same: "dict_get (PDict (AList.update k v kvs)) k = Inr v"
  by (simp add: update_conv')

lemma dict_get_update_other:
  "k' \<noteq> k \<Longrightarrow> dict_get (PDict (AList.update k v kvs)) k' = dict_get (PDict kvs) k'"
  by (simp add: update_conv')

lemma py_lower_or_lower:
  "py_lower (py_or (PStr (lower s)) (PStr d)) = py_lower (py_or (PStr s) (PStr d))"
  by (simp add: py_or_def lower_idem lower_Nil_iff)

lemma lower_SHORT: "lower ''SHORT'' = ''short''"
  by code_simp

lemma lower_Bullet: "lower ''Bullet'' = ''bullet''"
  by code_simp

lemma lower_short: "lower ''short'' = ''short''"
  by code_simp

lemma lower_bullet: "lower ''bullet'' = ''bullet''"
  by code_simp

lemma lower_Huge: "lower ''Huge'' = ''huge''"
  by code_simp

lemma lower_FORMAL: "lower ''FORMAL'' = ''formal''"
  by code_simp

lemma short_bullet_built:
  "build_summary_prompt render ''Some text''
     (PDict [(''tone'', PStr ''bullet''), (''length'', PStr ''short'')]) = Inr short_bullet_prompt"
  by (simp add: build_summary_prompt_def py_or_def lower_short lower_bullet strip_some_text
      map_get_default_def style_map_def tone_map_def short_bullet_prompt_def prompt_text_def)

lemma short_built:
  "build_summary_prompt render ''Some text'' (PDict [(''length'', PStr ''SHORT'')]) =
     Inr short_prompt"
  by (simp add: build_summary_prompt_def py_or_def lower_SHORT lower_neutral strip_some_text
      map_get_default_def style_map_def tone_map_def short_prompt_def prompt_text_def)

lemma medium_built:
  "build_summary_prompt render ''Some text'' (PDict [(''length'', PStr ''medium'')]) =
     Inr example_prompt"
  by (simp add: build_summary_prompt_def py_or_def lower_medium lower_neutral strip_some_text
      map_get_default_def style_map_def tone_map_def example_prompt_def)

lemma neutral_built:
  "build_summary_prompt render ''Some text'' (PDict [(''tone'', PStr ''neutral'')]) =
     Inr example_prompt"
  by (simp add: build_summary_prompt_def py_or_def lower_medium lower_neutral strip_some_text
      map_get_default_def style_map_def tone_map_def example_prompt_def)

lemma number_length_raises:
  "build_summary_prompt render text (PDict [(''length'', PNum 5)]) =
     Inl (AttributeError ''int'' ''lower'')"
  by (simp add: build_summary_prompt_def py_or_def)

lemma short_prompt_neq: "short_prompt \<noteq> example_prompt"
  by (simp add: short_prompt_def example_prompt_def prompt_text_def)

text \<open>
  Claim C9. The length and the tone are matched without regard to case: the prompt
  built for the strings \<open>L\<close> and \<open>T\<close> is the prompt built for their lowered forms, whatever
  the content and the other options.
\<close>

theorem prompt_case_insensitive:
  "build_summary_prompt render text
     (PDict (AList.update ''length'' (PStr L) (AList.update ''tone'' (PStr T) kvs))) =
   build_summary_prompt render text
     (PDict (AList.update ''length'' (PStr (lower L)) (AList.update ''tone'' (PStr (lower T)) kvs)))"
  by (simp add: build_summary_prompt_def dict_get_update_same dict_get_update_other
      py_lower_or_lower del: dict_get.simps)

theorem prompt_case_insensitive_witness:
  "build_summary_prompt (py_format silent_world) ''Some text''
     (PDict [(''tone'', PStr ''Bullet''), (''length'', PStr ''SHORT'')]) = Inr short_bullet_prompt"
  using prompt_case_insensitive
    [of "py_format silent_world" "''Some text''" "''SHORT''" "''Bullet''" "[]"]
  by (simp add: lower_SHORT lower_Bullet short_bullet_built)

text \<open>
  Claim C5, as stated, fails. The length \<open>SHORT\<close> is none of \<open>short\<close>, \<open>medium\<close> and
  \<open>detailed\<close>, yet the prompt built for it is that of the short style and not the one
  built for \<open>medium\<close>: the value is lowered before it is looked up. A length that is a
  number other than zero makes the builder raise instead of falling back.
\<close>

theorem prompt_uppercase_length_recognized:
  "''SHORT'' \<noteq> ''short'' \<and> ''SHORT'' \<noteq> ''medium'' \<and> ''SHORT'' \<noteq> ''detailed''
   \<and> build_summary_prompt (py_format silent_world) ''Some text''
         (PDict [(''length'', PStr ''SHORT'')])
       \<noteq> build_summary_prompt (py_format silent_world) ''Some text''
           (PDict [(''length'', PStr ''medium'')])
   \<and> build_summary_prompt (py_format silent_world) ''Some text'' (PDict [(''length'', PNum 5)])
       = Inl (AttributeError ''int'' ''lower'')"
  by (simp add: short_built medium_built short_prompt_neq number_length_raises)

lemma py_lower_unrecognized:
  "unrecognized table v \<Longrightarrow> map_of table d = Some x \<Longrightarrow> lower d = d \<Longrightarrow>
   \<exists>k. py_lower (py_or v (PStr d)) = Inr k \<and> map_get_default table k d = x"
  by (cases v) (auto simp: unrecognized_def py_or_def map_get_default_def)

lemma py_lower_default:
  "map_of table d = Some x \<Longrightarrow> lower d = d \<Longrightarrow> d \<noteq> [] \<Longrightarrow>
   \<exists>k. py_lower (py_or (PStr d) (PStr d)) = Inr k \<and> map_get_default table k d = x"
  by (auto simp: py_or_def map_get_default_def)

lemma style_medium: "map_of style_map ''medium'' = Some ''a tight single paragraph''"
  by (simp add: style_map_def)

lemma tone_neutral: "map_of tone_map ''neutral'' = Some ''neutral, factual prose''"
  by (simp add: tone_map_def)

lemma build_length_unrecognized:
  assumes "unrecognized style_map v"
  shows "build_summary_prompt render text (PDict (AList.update ''length'' v kvs)) =
         build_summary_prompt render text (PDict (AList.update ''length'' (PStr ''medium'') kvs))"
proof -
  obtain k where k: "py_lower (py_or v (PStr ''medium'')) = Inr k"
    "map_get_default style_map k ''medium'' = ''a tight single paragraph''"
    using py_lower_unrecognized [OF assms style_medium lower_medium] by blast
  obtain k' where k': "py_lower (py_or (PStr ''medium'') (PStr ''medium'')) = Inr k'"
    "map_get_default style_map k' ''medium'' = ''a tight single paragraph''"
    using py_lower_default [OF style_medium lower_medium] by auto
  show ?thesis
    by (simp add: build_summary_prompt_def dict_get_update_same dict_get_update_other k k'
        del: dict_get.simps)
qed

lemma build_tone_unrecognized:
  assumes "unrecognized tone_map u"
  shows "build_summary_prompt render text (PDict (AList.update ''tone'' u kvs)) =
         build_summary_prompt render text (PDict (AList.update ''tone'' (PStr ''neutral'') kvs))"
proof -
  obtain k where k: "py_lower (py_or u (PStr ''neutral'')) = Inr k"
    "map_get_default tone_map k ''neutral'' = ''neutral, factual prose''"
    using py_lower_unrecognized [OF assms tone_neutral lower_neutral] by blast
  obtain k' where k': "py_lower (py_or (PStr ''neutral'') (PStr ''neutral'')) = Inr k'"
    "map_get_default tone_map k' ''neutral'' = ''neutral, factual prose''"
    using py_lower_default [OF tone_neutral lower_neutral] by auto
  show ?thesis
    by (simp add: build_summary_prompt_def dict_get_update_same dict_get_update_other k k'
        del: dict_get.simps)
qed

lemma build_absent_as_None:
  "map_of kvs k = None \<Longrightarrow>
   build_summary_prompt render text (PDict kvs) =
   build_summary_prompt render text (PDict (AList.update k PNone kvs))"
  by (simp add: build_summary_prompt_def update_conv')

lemma unrecognized_None: "unrecognized table PNone"
  by (simp add: unrecognized_def)

text \<open>
  Claim C5, amended. For every content and every options dict: a length that is
  unrecognised (a string whose lowered form is none of \<open>short\<close>, \<open>medium\<close>, \<open>detailed\<close>, or a
  false value that is no string) gives exactly the prompt of the length \<open>medium\<close>, and so
  does an absent length; an unrecognised or absent tone gives exactly the prompt of the
  tone \<open>neutral\<close>.
\<close>

theorem prompt_unrecognized_defaults:
  "(unrecognized style_map v \<longrightarrow>
      build_summary_prompt render text (PDict (AList.update ''length'' v kvs)) =
      build_summary_prompt render text (PDict (AList.update ''length'' (PStr ''medium'') kvs)))
   \<and> (map_of kvs ''length'' = None \<longrightarrow>
      build_summary_prompt render text (PDict kvs) =
      build_summary_prompt render text (PDict (AList.update ''length'' (PStr ''medium'') kvs)))
   \<and> (unrecognized tone_map u \<longrightarrow>
      build_summary_prompt render text (PDict (AList.update ''tone'' u kvs)) =
      build_summary_prompt render text (PDict (AList.update ''tone'' (PStr ''neutral'') kvs)))
   \<and> (map_of kvs ''tone'' = None \<longrightarrow>
      build_summary_prompt render text (PDict kvs) =
      build_summary_prompt render text (PDict (AList.update ''tone'' (PStr ''neutral'') kvs)))"
proof (intro conjI impI)
  assume "unrecognized style_map v"
  then show "build_summary_prompt render text (PDict (AList.update ''length'' v kvs)) =
      build_summary_prompt render text (PDict (AList.update ''length'' (PStr ''medium'') kvs))"
    by (rule build_length_unrecognized)
next
  assume absent: "map_of kvs ''length'' = None"
  show "build_summary_prompt render text (PDict kvs) =
      build_summary_prompt render text (PDict (AList.update ''length'' (PStr ''medium'') kvs))"
    unfolding build_absent_as_None [OF absent]
    by (rule build_length_unrecognized [OF unrecognized_None])
next
  assume "unrecognized tone_map u"
  then show "build_summary_prompt render text (PDict (AList.update ''tone'' u kvs)) =
      build_summary_prompt render text (PDict (AList.update ''tone'' (PStr ''neutral'') kvs))"
    by (rule build_tone_unrecognized)
next
  assume absent: "map_of kvs ''tone'' = None"
  show "build_summary_prompt render text (PDict kvs) =
      build_summary_prompt render text (PDict (AList.update ''tone'' (PStr ''neutral'') kvs))"
    unfolding build_absent_as_None [OF absent]
    by (rule build_tone_unrecognized [OF unrecognized_None])
qed

theorem prompt_unrecognized_defaults_witness:
  "build_summary_prompt (py_format silent_world) ''Some text'' (PDict [(''length'', PStr ''Huge'')])
     = Inr example_prompt
   \<and> build_summary_prompt (py_format silent_world) ''Some text''
       (PDict [(''tone'', PStr ''FORMAL'')]) = Inr example_prompt
   \<and> build_summary_prompt (py_format silent_world) ''Some text'' (PDict []) = Inr example_prompt"
  using prompt_unrecognized_defaults
    [of "PStr ''Huge''" "py_format silent_world" "''Some text''" "[]" "PStr ''FORMAL''"]
  by (simp add: unrecognized_def lower_Huge lower_FORMAL style_map_def tone_map_def
      medium_built neutral_built)


















section \<open>Properties of the route\<close>

lemma image_context_unavailable:
  "genai_model cfg = None \<Longrightarrow> image_context w cfg prompt part tr = (None, tr)"
  by (simp add: image_context_def)

lemma analyze_image_request:
  assumes "\<not> is_json_request req"
    and "map_of (form req) ''mode'' = Some ''image_context''"
    and "map_of (files req) ''image'' = Some image_file"
    and "dict_get (form_options w req) ''language'' = Inr lang"
  shows "analyze w cfg req tr =
     (Inr (AnalysisBody
        \<lparr>analysis =
           (case fst (image_context w cfg (base_prompt (py_format w) (py_or lang (PStr [])))
                        (fst (encode_image w image_file)) tr) of
              None \<Rightarrow> unavailable_text
            | Some a \<Rightarrow> if a = [] then unavailable_text else a),
         image_model = DEFAULT_MODEL cfg,
         image_mode = ''image_context'',
         image_size = size_str w (file_data image_file),
         image_options = form_options w req\<rparr>, 200),
      snd (image_context w cfg (base_prompt (py_format w) (py_or lang (PStr [])))
             (fst (encode_image w image_file)) tr))"
  using assms
  by (simp add: analyze_def analyze_image_def Let_def encode_image_def split: prod.splits)

text \<open>
  Claim C4. An image-context request (a form request in the mode \<open>image_context\<close> that
  carries an image file and whose options are a dict) is always answered with status 200
  and an analysis, whatever the providers do; when the library handle is unavailable, or
  its generate call returns absent, the analysis is the text that says the vision model
  is unavailable.
\<close>

theorem image_request_sentinel:
  assumes "\<not> is_json_request req"
    and "map_of (form req) ''mode'' = Some ''image_context''"
    and "map_of (files req) ''image'' = Some image_file"
    and "dict_get (form_options w req) ''language'' = Inr lang"
  shows "(\<exists>r. fst (analyze w cfg req tr) = Inr (AnalysisBody r, 200))
       \<and> (genai_model cfg = None
           \<or> fst (image_context w cfg (base_prompt (py_format w) (py_or lang (PStr [])))
                    (fst (encode_image w image_file)) tr) = None
          \<longrightarrow> (\<exists>r. fst (analyze w cfg req tr) = Inr (AnalysisBody r, 200)
                    \<and> analysis r = unavailable_text))"
  using assms image_context_unavailable [of cfg w]
  by (auto simp: analyze_image_request)

lemma image_request_fields:
  "\<not> is_json_request (image_request bytes)"
  "map_of (form (image_request bytes)) ''mode'' = Some ''image_context''"
  "map_of (files (image_request bytes)) ''image''
     = Some \<lparr>file_data = bytes, mimetype = ''image/png''\<rparr>"
  by (simp_all add: image_request_def is_json_request_def)

lemma image_request_options:
  "form_options silent_world (image_request bytes) = PDict []"
  "form_options answering_world (image_request bytes) = PDict []"
  by (simp_all add: form_options_def image_request_def silent_world_def answering_world_def)

lemma library_config_fields:
  "API_KEY library_config = ''k''"
  "DEFAULT_MODEL library_config = ''gemini-2.0-flash''"
  "genai_model library_config = Some ''gemini-2.0-flash''"
  by (simp_all add: library_config_def)

lemma image_context_silent:
  "image_context silent_world library_config p part tr =
     (None, tr @ [GenerateContent ''gemini-2.0-flash'' p (Some part)])"
  by (simp add: image_context_def library_config_def silent_world_def)

theorem image_request_sentinel_witness:
  "genai_model example_config = None
   \<and> (\<exists>r. fst (analyze silent_world example_config (image_request ''PNG'') [])
           = Inr (AnalysisBody r, 200) \<and> analysis r = unavailable_text)
   \<and> genai_model library_config = Some ''gemini-2.0-flash''
   \<and> (\<exists>r. fst (analyze silent_world library_config (image_request ''PNG'') [])
           = Inr (AnalysisBody r, 200) \<and> analysis r = unavailable_text)"
  using image_request_sentinel
          [of "image_request ''PNG''" "\<lparr>file_data = ''PNG'', mimetype = ''image/png''\<rparr>"
              silent_world PNone example_config "[]"]
        image_request_sentinel
          [of "image_request ''PNG''" "\<lparr>file_data = ''PNG'', mimetype = ''image/png''\<rparr>"
              silent_world PNone library_config "[]"]
  by (simp add: image_request_fields image_request_options example_config_fields
      library_config_fields image_context_silent)

lemma image_prompt_plain: "base_prompt render (PStr []) = image_prompt"
  by (simp add: base_prompt_def image_prompt_def)

lemma strip_library_answer: "strip ''library answer'' = ''library answer''"
  by (simp add: strip_def whitespace_def)

lemma image_context_answering:
  "image_context answering_world library_config p part tr =
     (Some ''library answer'', tr @ [GenerateContent ''gemini-2.0-flash'' p (Some part)])"
  by (simp add: image_context_def library_config_def answering_world_def has_text_def
      strip_library_answer)

lemma size_str_answering: "size_str answering_world bytes = ''unknown''"
  by (simp add: size_str_def answering_world_def)

lemma encode_image_answering:
  "encode_image answering_world \<lparr>file_data = bytes, mimetype = ''image/png''\<rparr> =
     (\<lparr>inline_data = bytes, mime_type = ''image/png''\<rparr>, bytes)"
  by (simp add: encode_image_def answering_world_def)

text \<open>
  Claim C8. A request whose image bytes are empty should be rejected before
  \<open>image_context\<close> is invoked, as a request whose text is empty is rejected before
  \<open>summarize\<close>. The code breaks this for images: the route tests only that the file is
  there, so that a file without bytes is encoded and handed to \<open>image_context\<close>, the
  library is called with the empty image, and the response is a 200.
\<close>

theorem empty_image_not_rejected:
  "file_data \<lparr>file_data = [], mimetype = ''image/png''\<rparr> = []
   \<and> map_of (files (image_request [])) ''image''
        = Some \<lparr>file_data = [], mimetype = ''image/png''\<rparr>
   \<and> analyze answering_world library_config (image_request []) [] =
       (Inr (AnalysisBody
          \<lparr>analysis = ''library answer'',
           image_model = ''gemini-2.0-flash'',
           image_mode = ''image_context'',
           image_size = ''unknown'',
           image_options = PDict []\<rparr>, 200),
        [GenerateContent ''gemini-2.0-flash'' image_prompt
           (Some \<lparr>inline_data = [], mime_type = ''image/png''\<rparr>)])"
proof -
  have "dict_get (form_options answering_world (image_request [])) ''language'' = Inr PNone"
    by (simp add: image_request_options)
  from analyze_image_request [OF image_request_fields this, of library_config "[]"]
  show ?thesis
    by (simp add: image_request_options image_request_fields py_or_def image_prompt_plain
        image_context_answering size_str_answering encode_image_answering
        library_config_fields)
qed

text \<open>
  What the route does reject: a JSON request whose text is empty after trimming is
  answered with status 400, and so is an image-context request that carries no image
  file; in both cases no call to a provider has been made, whatever the world and the
  configuration are. The examples are a text of three spaces, a missing file, and a text
  of one no-break space.
\<close>

lemma empty_request_rejected:
  "(is_json_request req
      \<and> dict_get (py_or (get_json req) (PDict [])) ''mode'' = Inr mode
      \<and> dict_get (py_or (get_json req) (PDict [])) ''text'' = Inr t
      \<and> py_strip (py_or t (PStr [])) = Inr []
    \<longrightarrow> analyze w cfg req tr =
          (Inr (ErrorBody
             (if py_or mode (PStr ''summarize'') \<noteq> PStr ''summarize''
              then ''Unsupported JSON mode'' else ''No text provided''), 400), tr))
   \<and> (\<not> is_json_request req
      \<and> map_of (form req) ''mode'' = Some ''image_context''
      \<and> map_of (files req) ''image'' = None
    \<longrightarrow> analyze w cfg req tr = (Inr (ErrorBody ''Image file missing'', 400), tr))"
proof (intro conjI impI)
  assume a: "is_json_request req
      \<and> dict_get (py_or (get_json req) (PDict [])) ''mode'' = Inr mode
      \<and> dict_get (py_or (get_json req) (PDict [])) ''text'' = Inr t
      \<and> py_strip (py_or t (PStr [])) = Inr []"
  then obtain kvs where "py_or (get_json req) (PDict []) = PDict kvs"
    by (cases "py_or (get_json req) (PDict [])") auto
  with a show "analyze w cfg req tr =
          (Inr (ErrorBody
             (if py_or mode (PStr ''summarize'') \<noteq> PStr ''summarize''
              then ''Unsupported JSON mode'' else ''No text provided''), 400), tr)"
    by (auto simp: analyze_def analyze_json_def Let_def)
next
  assume "\<not> is_json_request req
      \<and> map_of (form req) ''mode'' = Some ''image_context''
      \<and> map_of (files req) ''image'' = None"
  then show "analyze w cfg req tr = (Inr (ErrorBody ''Image file missing'', 400), tr)"
    by (simp add: analyze_def analyze_image_def)
qed

lemma strip_blank: "strip ''   '' = []"
  by (simp add: strip_def whitespace_def)

lemma empty_request_rejected_example:
  "analyze answering_world library_config blank_text_request [] =
     (Inr (ErrorBody ''No text provided'', 400), [])
   \<and> analyze answering_world library_config no_image_request [] =
     (Inr (ErrorBody ''Image file missing'', 400), [])"
  using empty_request_rejected
          [of blank_text_request PNone "PStr ''   ''" answering_world library_config "[]"]
        empty_request_rejected
          [of no_image_request PNone PNone answering_world library_config "[]"]
  by (simp add: blank_text_request_def no_image_request_def is_json_request_def py_or_def
      strip_blank)

lemma strip_nbsp: "strip [CHR 0xC2, CHR 0xA0] = []"
  by (simp add: strip_def whitespace_def)

lemma nbsp_text_rejected:
  "analyze answering_world library_config nbsp_text_request [] =
     (Inr (ErrorBody ''No text provided'', 400), [])"
  by (simp add: analyze_def analyze_json_def is_json_request_def nbsp_text_request_def
      py_or_def strip_nbsp)

section \<open>Properties of the start-up\<close>

text \<open>
  Without an API key in the environment the module is loaded with an empty key and
  without a library handle.
\<close>

lemma load_module_no_key:
  "getenv_or environ ''GEMINI_API_KEY'' ''GOOGLE_API_KEY'' = [] \<Longrightarrow>
   API_KEY (load_module environ genai) = [] \<and> genai_model (load_module environ genai) = None"
  by (simp add: load_module_def)

text \<open>
  Claim C3. The model name of a result should identify the attempt that gave the
  returned text. The code breaks this for the library: when the constructor fails for
  the primary model and succeeds for the secondary one, start-up keeps a handle of the
  secondary model while \<open>DEFAULT_MODEL\<close> stays the primary one; an answer of that handle
  is then returned under the tag \<open>genai\<close> with the primary model's name, although the
  call went to the secondary model.
\<close>

theorem summarize_misreports_model:
  "load_module [(''GEMINI_API_KEY'', ''k'')] fallback_only_library = fallback_handle_config
   \<and> summarize answering_world fallback_handle_config ''Some text'' (PDict []) [] =
       (Inr \<lparr>summary = ''library answer'', meta_model = ''gemini-2.0-flash'',
             meta_mode = ''summarize'', meta_source = ''genai'', meta_options = PDict []\<rparr>,
        [GenerateContent ''gemini-1.5-flash'' example_prompt None])"
  by (simp add: load_module_def getenv_or_def FALLBACK_MODEL_def fallback_only_library_def
      fallback_handle_config_def summarize_def example_prompt_built genai_summarize_def
      answering_world_def genai_extract_def has_text_def strip_library_answer)

end
